theory Spec2Isabelle
  imports Complex_Main
begin

section \<open>Data model\<close>

text \<open>
  JavaScript numbers are modelled as exact reals: the rounding of double arithmetic,
  infinities and NaN are outside the model. A \<^verbatim>\<open>Float32Array\<close> is a list of reals,
  read with \<open>!\<close> and written with list update; every buffer of the program is allocated
  with \<open>PARTICLE_COUNT * 3\<close> entries and never resized, which the theorems state as
  \<open>wf\<close>. A store into a \<^verbatim>\<open>Float32Array\<close> rounds the value to single precision
  (\<open>f32\<close> below). The shape sampler is modelled with this rounding; in the particle
  loop the stores are modelled without it, so that the theorems on the loop state the
  form and the order of its updates.

  \<^verbatim>\<open>Math.random()\<close> is a global generator. It is modelled by a fixed sequence
  \<open>rs\<close> of outcomes and a counter \<open>c\<close> of the draws made so far, threaded through
  the code: a draw reads \<open>rs c\<close> and increments \<open>c\<close>.
\<close>

definition PARTICLE_COUNT :: nat where
  "PARTICLE_COUNT = 15000"

text \<open>types.ts: \<^verbatim>\<open>HandData\<close>; \<open>center\<close> and \<open>rotation\<close> are pairs \<open>(x, y)\<close>.\<close>

record HandData =
  isTracking :: bool
  distance :: real
  isFist :: bool
  center :: "real \<times> real"
  rotation :: "real \<times> real"

text \<open>
  The refs of the ParticleSystem component: the three simulation buffers and the
  \<open>position\<close> attribute array of the geometry.
\<close>

record ParticleSystem =
  targetPositions :: "real list"
  currentPositions :: "real list"
  velocities :: "real list"
  positions :: "real list"

definition Float32Array :: "nat \<Rightarrow> real list" where
  "Float32Array n = replicate n 0"

text \<open>
  The value a \<^verbatim>\<open>Float32Array\<close> holds after a number is stored into it: the nearest
  single-precision number, ties to even. A number of binary exponent \<open>e\<close> is rounded to
  a multiple of \<open>2 ^ (e - 23)\<close>, the subnormal ones to a multiple of \<open>2 ^ (- 149)\<close>.
  The overflow to an infinity (from \<open>2 ^ 128\<close> on) is not modelled.
\<close>

definition roundTiesToEven :: "real \<Rightarrow> int" where
  "roundTiesToEven t =
     (let f = \<lfloor>t\<rfloor>
      in if t - of_int f < 1 / 2 then f
         else if 1 / 2 < t - of_int f then f + 1
         else if even f then f else f + 1)"

definition f32 :: "real \<Rightarrow> real" where
  "f32 x =
     (if x = 0 then 0
      else
        let e = max \<lfloor>log 2 \<bar>x\<bar>\<rfloor> (- 126);
            q = 2 powr (of_int e - 23)
        in of_int (roundTiesToEven (x / q)) * q)"

definition initialParticleSystem :: ParticleSystem where
  "initialParticleSystem =
     \<lparr> targetPositions = Float32Array (PARTICLE_COUNT * 3),
       currentPositions = Float32Array (PARTICLE_COUNT * 3),
       velocities = Float32Array (PARTICLE_COUNT * 3),
       positions = Float32Array (PARTICLE_COUNT * 3) \<rparr>"

definition wf :: "ParticleSystem \<Rightarrow> bool" where
  "wf st \<longleftrightarrow>
     length (targetPositions st) = PARTICLE_COUNT * 3 \<and>
     length (currentPositions st) = PARTICLE_COUNT * 3 \<and>
     length (velocities st) = PARTICLE_COUNT * 3 \<and>
     length (positions st) = PARTICLE_COUNT * 3"

section \<open>The animation loop (ParticleSystem, useFrame)\<close>

text \<open>Tick parameters derived from the hand data (lines 168-204).\<close>

definition isBurst :: "HandData \<Rightarrow> bool" where
  "isBurst hdat \<longleftrightarrow> distance hdat > 0.85"

definition breathing :: "real \<Rightarrow> real" where
  "breathing time = sin (time * 0.5) * 0.1 + 1"

definition expansionFactor :: "HandData \<Rightarrow> real \<Rightarrow> real" where
  "expansionFactor hdat time =
     (if isTracking hdat \<and> \<not> isBurst hdat then 0.5 + (distance hdat * 1.5) else breathing time)"

definition returnForce :: "HandData \<Rightarrow> real" where
  "returnForce hdat = (if isBurst hdat then 0 else 0.03)"

definition damping :: real where
  "damping = 0.90"

text \<open>
  One iteration of the particle loop (lines 206-265) for particle \<open>i\<close>. The arguments
  \<open>ef\<close>, \<open>rf\<close>, \<open>fist\<close>, \<open>burst\<close> are the closure variables \<^verbatim>\<open>expansionFactor\<close>,
  \<^verbatim>\<open>returnForce\<close>, \<^verbatim>\<open>isFist\<close>, \<^verbatim>\<open>isBurst\<close>; the state is
  \<open>(current, velocities, positions, c)\<close>.
\<close>

definition particleStep ::
  "real \<Rightarrow> real \<Rightarrow> bool \<Rightarrow> bool \<Rightarrow> (nat \<Rightarrow> real) \<Rightarrow> real list \<Rightarrow> nat \<Rightarrow>
   real list \<times> real list \<times> real list \<times> nat \<Rightarrow> real list \<times> real list \<times> real list \<times> nat" where
  "particleStep ef rf fist burst rs targets i s =
     (case s of (current, vels, poss, c) \<Rightarrow>
      let i3 = i * 3;
          tx = targets ! i3 * ef;
          ty = targets ! (i3 + 1) * ef;
          tz = targets ! (i3 + 2) * ef;
          ax = (tx - current ! i3) * rf;
          ay = (ty - current ! (i3 + 1)) * rf;
          az = (tz - current ! (i3 + 2)) * rf;
          (ax, ay, az, c) =
            (if fist then
               (ax - current ! i3 * 0.05 + (rs c - 0.5) * 0.1,
                ay - current ! (i3 + 1) * 0.05 + (rs (c + 1) - 0.5) * 0.1,
                az - current ! (i3 + 2) * 0.05 + (rs (c + 2) - 0.5) * 0.1,
                c + 3)
             else (ax, ay, az, c));
          (ax, ay, az, c) =
            (if burst then
               let dx = current ! i3;
                   dy = current ! (i3 + 1);
                   dz = current ! (i3 + 2);
                   force = 0.02 + rs c * 0.01
               in (ax + dx * force, ay + dy * force, az + dz * force, c + 1)
             else (ax, ay, az, c));
          vels = vels[i3 := vels ! i3 + ax];
          vels = vels[i3 + 1 := vels ! (i3 + 1) + ay];
          vels = vels[i3 + 2 := vels ! (i3 + 2) + az];
          vels = vels[i3 := vels ! i3 * damping];
          vels = vels[i3 + 1 := vels ! (i3 + 1) * damping];
          vels = vels[i3 + 2 := vels ! (i3 + 2) * damping];
          current = current[i3 := current ! i3 + vels ! i3];
          current = current[i3 + 1 := current ! (i3 + 1) + vels ! (i3 + 1)];
          current = current[i3 + 2 := current ! (i3 + 2) + vels ! (i3 + 2)];
          poss = poss[i3 := current ! i3];
          poss = poss[i3 + 1 := current ! (i3 + 1)];
          poss = poss[i3 + 2 := current ! (i3 + 2)]
      in (current, vels, poss, c))"

text \<open>The loop \<^verbatim>\<open>for (let i = 0; i < PARTICLE_COUNT; i++)\<close>, with its bound as argument.\<close>

definition particleLoop ::
  "nat \<Rightarrow> real \<Rightarrow> real \<Rightarrow> bool \<Rightarrow> bool \<Rightarrow> (nat \<Rightarrow> real) \<Rightarrow> real list \<Rightarrow>
   real list \<times> real list \<times> real list \<times> nat \<Rightarrow> real list \<times> real list \<times> real list \<times> nat" where
  "particleLoop n ef rf fist burst rs targets s =
     fold (particleStep ef rf fist burst rs targets) [0..<n] s"

text \<open>
  The loop run on the buffers of the component, the tick parameters being given:
  \<open>targets\<close>, \<open>current\<close>, \<open>velocities\<close> and \<open>positions\<close> of lines 190-193 are the
  four arrays of the state (no two are the same array).
\<close>

definition physicsTick ::
  "real \<Rightarrow> real \<Rightarrow> bool \<Rightarrow> bool \<Rightarrow> (nat \<Rightarrow> real) \<Rightarrow> ParticleSystem \<times> nat \<Rightarrow> ParticleSystem \<times> nat" where
  "physicsTick ef rf fist burst rs s =
     (case s of (st, c) \<Rightarrow>
        (case particleLoop PARTICLE_COUNT ef rf fist burst rs (targetPositions st)
                (currentPositions st, velocities st, positions st, c) of
           (current, vels, poss, c') \<Rightarrow>
             (st\<lparr>currentPositions := current, velocities := vels, positions := poss\<rparr>, c')))"

text \<open>
  The frame callback. \<open>refsReady\<close> is the guard of line 154 (the three React refs are
  set); the rotation of the cloud and the material's colour, opacity and size do not
  touch the buffers and are left out.
\<close>

definition useFrame ::
  "bool \<Rightarrow> HandData \<Rightarrow> real \<Rightarrow> (nat \<Rightarrow> real) \<Rightarrow> ParticleSystem \<times> nat \<Rightarrow> ParticleSystem \<times> nat" where
  "useFrame refsReady hdat time rs s =
     (if \<not> refsReady then s
      else physicsTick (expansionFactor hdat time) (returnForce hdat)
             (isFist hdat) (isBurst hdat) rs s)"

section \<open>The geometry service (generateShapePositions)\<close>

text \<open>
  types.ts: \<^verbatim>\<open>ShapeType\<close> is a string enum, so a shape kind is a string at run
  time and the \<^verbatim>\<open>switch\<close> compares strings.
\<close>

definition SPHERE :: string where "SPHERE = ''Sphere''"
definition CUBE :: string where "CUBE = ''Cube''"
definition HEART :: string where "HEART = ''Heart''"
definition SPIRAL :: string where "SPIRAL = ''Spiral''"
definition SATURN :: string where "SATURN = ''Saturn''"
definition CLOUD :: string where "CLOUD = ''Cloud''"

type_synonym vec3 = "real \<times> real \<times> real"

text \<open>
  The methods of \<^verbatim>\<open>THREE.Vector3\<close> the service calls. three.js is a dependency, not
  part of the repository; these follow its documented behaviour
  (\<^verbatim>\<open>applyAxisAngle\<close> rotates by the quaternion of the axis and the angle).
\<close>

definition multiplyScalar :: "vec3 \<Rightarrow> real \<Rightarrow> vec3" where
  "multiplyScalar v s = (case v of (x, y, z) \<Rightarrow> (x * s, y * s, z * s))"

definition setFromSphericalCoords :: "real \<Rightarrow> real \<Rightarrow> real \<Rightarrow> vec3" where
  "setFromSphericalCoords radius phi theta =
     (let sinPhiRadius = sin phi * radius
      in (sinPhiRadius * sin theta, cos phi * radius, sinPhiRadius * cos theta))"

definition applyAxisAngle :: "vec3 \<Rightarrow> vec3 \<Rightarrow> real \<Rightarrow> vec3" where
  "applyAxisAngle v axis angle =
     (case v of (vx, vy, vz) \<Rightarrow> case axis of (axx, axy, axz) \<Rightarrow>
      let halfAngle = angle / 2;
          s = sin halfAngle;
          qx = axx * s; qy = axy * s; qz = axz * s; qw = cos halfAngle;
          tx = 2 * (qy * vz - qz * vy);
          ty = 2 * (qz * vx - qx * vz);
          tz = 2 * (qx * vy - qy * vx)
      in (vx + qw * tx + qy * tz - qz * ty,
          vy + qw * ty + qz * tx - qx * tz,
          vz + qw * tz + qx * ty - qy * tx))"

text \<open>\<^verbatim>\<open>getRandomPointInSphere\<close>: three draws; returns the point and the new counter.\<close>

definition getRandomPointInSphere :: "real \<Rightarrow> (nat \<Rightarrow> real) \<Rightarrow> nat \<Rightarrow> vec3 \<times> nat" where
  "getRandomPointInSphere r rs c =
     (let u = rs c;
          v = rs (c + 1);
          theta = 2 * pi * u;
          phi = arccos (2 * v - 1);
          radius = root 3 (rs (c + 2)) * r;
          sinPhi = sin phi
      in ((radius * sinPhi * cos theta, radius * sinPhi * sin theta, radius * cos phi), c + 3))"

text \<open>
  The \<^verbatim>\<open>switch\<close> of one loop iteration: the value of \<^verbatim>\<open>vec\<close> after it and the
  new counter. Every branch assigns all three components of \<^verbatim>\<open>vec\<close>, so its value
  from the previous iteration is never read. The last branch is
  \<^verbatim>\<open>case ShapeType.CLOUD: default:\<close>.
\<close>

definition shapePoint :: "string \<Rightarrow> real \<Rightarrow> nat \<Rightarrow> (nat \<Rightarrow> real) \<Rightarrow> nat \<Rightarrow> vec3 \<times> nat" where
  "shapePoint type radius i rs c =
     (if type = SPHERE then getRandomPointInSphere radius rs c
      else if type = CUBE then
        let size = radius * 1.5
        in (((rs c - 0.5) * size, (rs (c + 1) - 0.5) * size, (rs (c + 2) - 0.5) * size), c + 3)
      else if type = HEART then
        let t = rs c * pi * 2;
            r = rs (c + 1);
            scale = radius * 0.05;
            x = 16 * (sin t) ^ 3;
            y = 13 * cos t - 5 * cos (2 * t) - 2 * cos (3 * t) - cos (4 * t);
            z = (rs (c + 2) - 0.5) * 4 * r;
            x = x * r;
            y = y * r
        in ((x * scale, y * scale, z * scale), c + 3)
      else if type = SPIRAL then
        let t = rs c * 20;
            r = t * 0.2 + 0.5;
            angle = t * 2;
            v = multiplyScalar (r * cos angle, (t - 10) * 0.5, r * sin angle) (radius * 0.25)
        in (case v of (x, y, z) \<Rightarrow>
              ((x + (rs (c + 1) - 0.5) * 0.5, y, z + (rs (c + 2) - 0.5) * 0.5), c + 3))
      else if type = SATURN then
        if real i < real PARTICLE_COUNT * 0.7 then getRandomPointInSphere (radius * 0.6) rs c
        else
          let angle = rs c * pi * 2;
              dist' = (radius * 0.8) + rs (c + 1) * (radius * 0.6);
              v = (cos angle * dist', (rs (c + 2) - 0.5) * 0.2, sin angle * dist');
              v = applyAxisAngle v (1, 0, 0) (pi * 0.1);
              v = applyAxisAngle v (0, 0, 1) (pi * 0.1)
          in (v, c + 3)
      else
        let r = radius * (0.5 + rs c);
            theta = rs (c + 1) * pi * 2;
            phi = rs (c + 2) * pi;
            v = setFromSphericalCoords r phi theta;
            v = multiplyScalar v (rs (c + 3))
        in (v, c + 4))"

text \<open>One iteration: the switch, then the three stores into \<^verbatim>\<open>positions\<close>.\<close>

definition shapeStep ::
  "string \<Rightarrow> real \<Rightarrow> (nat \<Rightarrow> real) \<Rightarrow> nat \<Rightarrow> real list \<times> nat \<Rightarrow> real list \<times> nat" where
  "shapeStep type radius rs i s =
     (case s of (ps, c) \<Rightarrow>
      case shapePoint type radius i rs c of ((x, y, z), c') \<Rightarrow>
        let i3 = i * 3
        in (ps[i3 := f32 x, i3 + 1 := f32 y, i3 + 2 := f32 z], c'))"

definition shapeLoop ::
  "nat \<Rightarrow> string \<Rightarrow> real \<Rightarrow> (nat \<Rightarrow> real) \<Rightarrow> real list \<times> nat \<Rightarrow> real list \<times> nat" where
  "shapeLoop n type radius rs s = fold (shapeStep type radius rs) [0..<n] s"

text \<open>\<^verbatim>\<open>generateShapePositions(type, radius)\<close>: the buffer returned and the new counter.\<close>

definition generateShapePositions ::
  "string \<Rightarrow> real \<Rightarrow> (nat \<Rightarrow> real) \<Rightarrow> nat \<Rightarrow> real list \<times> nat" where
  "generateShapePositions type radius rs c =
     shapeLoop PARTICLE_COUNT type radius rs (Float32Array (PARTICLE_COUNT * 3), c)"

section \<open>Shape selection (ParticleSystem, useEffect on targetShape)\<close>

datatype error = RangeError | TypeError

text \<open>
  \<^verbatim>\<open>target.set(source)\<close> of a typed array: copies \<open>source\<close> to the front of
  \<open>target\<close>, and throws a RangeError when \<open>source\<close> is the longer one.
\<close>

definition Float32Array_set :: "real list \<Rightarrow> real list \<Rightarrow> error + real list" where
  "Float32Array_set target source =
     (if length source \<le> length target then Inr (source @ drop (length source) target)
      else Inl RangeError)"

text \<open>
  The effect run when \<^verbatim>\<open>targetShape\<close> changes (lines 135-143);
  \<^verbatim>\<open>generateShapePositions(targetShape)\<close> takes the default radius 4.
\<close>

definition useEffect_targetShape ::
  "string \<Rightarrow> (nat \<Rightarrow> real) \<Rightarrow> ParticleSystem \<times> nat \<Rightarrow> error + ParticleSystem \<times> nat" where
  "useEffect_targetShape targetShape rs s =
     (case s of (st, c) \<Rightarrow>
      case generateShapePositions targetShape 4 rs c of (newPositions, c') \<Rightarrow>
      case Float32Array_set (targetPositions st) newPositions of
        Inl e \<Rightarrow> Inl e
      | Inr targets \<Rightarrow>
          if list_all (\<lambda>v. v = 0) (currentPositions st) then
            (case Float32Array_set (currentPositions st) newPositions of
               Inl e \<Rightarrow> Inl e
             | Inr current \<Rightarrow>
                 Inr (st\<lparr>targetPositions := targets, currentPositions := current\<rparr>, c'))
          else Inr (st\<lparr>targetPositions := targets\<rparr>, c'))"

section \<open>The gesture source (HandController, renderLoop)\<close>

record Landmark =
  lm_x :: real
  lm_y :: real
  lm_z :: real

type_synonym hand = "Landmark list"

text \<open>
  \<^verbatim>\<open>hand[k]\<close>: reading a coordinate of a landmark that is not there throws a TypeError,
  the frame's \<^verbatim>\<open>onUpdate\<close> is then never reached; this is \<open>None\<close>.
\<close>

definition landmark :: "hand \<Rightarrow> nat \<Rightarrow> Landmark option" where
  "landmark h k = (if k < length h then Some (h ! k) else None)"

definition getDist :: "Landmark \<Rightarrow> Landmark \<Rightarrow> real" where
  "getDist p1 p2 = sqrt ((lm_x p1 - lm_x p2) ^ 2 + (lm_y p1 - lm_y p2) ^ 2)"

text \<open>The \<^verbatim>\<open>forEach\<close> of the centroid: \<open>(sumX, sumY, pointCount)\<close>.\<close>

fun centroidSums :: "hand list \<Rightarrow> real \<times> real \<times> nat \<Rightarrow> (real \<times> real \<times> nat) option" where
  "centroidSums [] s = Some s"
| "centroidSums (h # hs) (sumX, sumY, pointCount) =
     (case landmark h 0 of None \<Rightarrow> None | Some p0 \<Rightarrow>
      case landmark h 8 of None \<Rightarrow> None | Some p8 \<Rightarrow>
        centroidSums hs (sumX + (lm_x p0 + lm_x p8), sumY + (lm_y p0 + lm_y p8), pointCount + 2))"

text \<open>The loop counting the open fingers of all hands.\<close>

fun countOpenFingers :: "hand list \<Rightarrow> nat \<Rightarrow> nat option" where
  "countOpenFingers [] openFingers = Some openFingers"
| "countOpenFingers (h # hs) openFingers =
     (case landmark h 0 of None \<Rightarrow> None | Some wrist \<Rightarrow>
      case landmark h 8 of None \<Rightarrow> None | Some p8 \<Rightarrow>
      case landmark h 12 of None \<Rightarrow> None | Some p12 \<Rightarrow>
      case landmark h 16 of None \<Rightarrow> None | Some p16 \<Rightarrow>
      case landmark h 20 of None \<Rightarrow> None | Some p20 \<Rightarrow>
        countOpenFingers hs
          (openFingers + (if getDist p8 wrist > 0.3 then 1 else 0)
                       + (if getDist p12 wrist > 0.3 then 1 else 0)
                       + (if getDist p16 wrist > 0.3 then 1 else 0)
                       + (if getDist p20 wrist > 0.3 then 1 else 0)))"

text \<open>The distance between the two index fingertips, mapped to \<open>[0, 1]\<close> (lines 436-448).\<close>

definition fingerDistance :: "hand list \<Rightarrow> real option" where
  "fingerDistance hands =
     (if length hands = 2 then
        (case landmark (hands ! 0) 8 of None \<Rightarrow> None | Some h1 \<Rightarrow>
         case landmark (hands ! 1) 8 of None \<Rightarrow> None | Some h2 \<Rightarrow>
           let dx = lm_x h1 - lm_x h2;
               dy = lm_y h1 - lm_y h2;
               dz = lm_z h1 - lm_z h2;
               rawDist = sqrt (dx * dx + dy * dy + dz * dz)
           in Some (min (max ((rawDist - 0.05) / 0.6) 0) 1))
      else Some 0.5)"

text \<open>
  The hand data passed to \<^verbatim>\<open>onUpdate\<close> for one video frame (lines 395-467);
  the argument is \<^verbatim>\<open>results.landmarks\<close>, \<open>None\<close> when it is missing.
\<close>

definition handDataOf :: "hand list option \<Rightarrow> HandData option" where
  "handDataOf landmarks =
     (let idle = \<lparr>isTracking = False, distance = 0.5, isFist = False,
                  center = (0.5, 0.5), rotation = (0, 0)\<rparr>
      in case landmarks of
           None \<Rightarrow> Some idle
         | Some hands \<Rightarrow>
             if length hands > 0 then
               (case centroidSums hands (0, 0, 0) of None \<Rightarrow> None
                | Some (sumX, sumY, pointCount) \<Rightarrow>
                    let (cen, rot) =
                          (if pointCount > 0 then
                             let rawX = sumX / real pointCount;
                                 rawY = sumY / real pointCount;
                                 cx = 1 - rawX;
                                 cy = rawY
                             in ((cx, cy), ((cy - 0.5) * 2, (cx - 0.5) * 3))
                           else ((0.5, 0.5), (0, 0)))
                    in case fingerDistance hands of None \<Rightarrow> None
                       | Some distance' \<Rightarrow>
                           (case countOpenFingers hands 0 of None \<Rightarrow> None
                            | Some openFingers \<Rightarrow>
                                Some \<lparr>isTracking = True, distance = distance',
                                       isFist = (openFingers = 0),
                                       center = cen, rotation = rot\<rparr>))
             else Some idle)"

text \<open>App.tsx: the value \<^verbatim>\<open>handDataRef\<close> holds before the first update.\<close>

definition initialHandData :: HandData where
  "initialHandData =
     \<lparr>isTracking = False, distance = 0.5, isFist = False, center = (0.5, 0.5), rotation = (0, 0)\<rparr>"

section \<open>Closed form of one tick\<close>

text \<open>Number of \<^verbatim>\<open>Math.random()\<close> calls one iteration of the particle loop makes.\<close>

definition draws :: "bool \<Rightarrow> bool \<Rightarrow> nat" where
  "draws fist burst = (if fist then 3 else 0) + (if burst then 1 else 0)"

text \<open>
  The value \<^verbatim>\<open>ax\<close>, \<^verbatim>\<open>ay\<close> or \<^verbatim>\<open>az\<close> (\<open>k = 0, 1, 2\<close>) has when the velocity of
  particle \<open>i\<close> is updated, in terms of the buffers and the draw counter at loop entry.
\<close>

definition accel ::
  "real \<Rightarrow> real \<Rightarrow> bool \<Rightarrow> bool \<Rightarrow> (nat \<Rightarrow> real) \<Rightarrow> nat \<Rightarrow> real list \<Rightarrow> real list \<Rightarrow>
   nat \<Rightarrow> nat \<Rightarrow> real" where
  "accel ef rf fist burst rs c targets current i k =
     (targets ! (i * 3 + k) * ef - current ! (i * 3 + k)) * rf
     + (if fist then - (current ! (i * 3 + k) * 0.05)
                     + (rs (c + i * draws fist burst + k) - 0.5) * 0.1 else 0)
     + (if burst then current ! (i * 3 + k)
                      * (0.02 + rs (c + i * draws fist burst + (if fist then 3 else 0)) * 0.01)
        else 0)"

text \<open>
  Number of \<^verbatim>\<open>Math.random()\<close> calls one iteration of the loop of
  \<^verbatim>\<open>generateShapePositions\<close> makes.
\<close>

definition shapeDraws :: "string \<Rightarrow> nat" where
  "shapeDraws type =
     (if type = SPHERE \<or> type = CUBE \<or> type = HEART \<or> type = SPIRAL \<or> type = SATURN
      then 3 else 4)"

section \<open>Properties of the particle loop\<close>

lemma wf_initialParticleSystem: "wf initialParticleSystem"
  by (simp add: wf_def initialParticleSystem_def Float32Array_def)

lemma PARTICLE_COUNT_pos: "0 < PARTICLE_COUNT"
  by (simp add: PARTICLE_COUNT_def)

lemma initialParticleSystem_nth:
  "j < PARTICLE_COUNT * 3 \<Longrightarrow> targetPositions initialParticleSystem ! j = 0"
  "j < PARTICLE_COUNT * 3 \<Longrightarrow> currentPositions initialParticleSystem ! j = 0"
  "j < PARTICLE_COUNT * 3 \<Longrightarrow> velocities initialParticleSystem ! j = 0"
  by (simp_all add: initialParticleSystem_def Float32Array_def)

lemma three_cases: "k < 3 \<Longrightarrow> k = 0 \<or> k = Suc 0 \<or> k = 2" for k :: nat
  by arith

lemma particleStep_nth:
  assumes "i * 3 + 2 < length current" "i * 3 + 2 < length vels" "i * 3 + 2 < length poss"
  shows "\<exists>cur' vels' poss'.
     particleStep ef rf fist burst rs targets i (current, vels, poss, c + i * draws fist burst)
       = (cur', vels', poss', c + Suc i * draws fist burst)
     \<and> length cur' = length current \<and> length vels' = length vels \<and> length poss' = length poss
     \<and> (\<forall>k<3. vels' ! (i * 3 + k)
                 = (vels ! (i * 3 + k) + accel ef rf fist burst rs c targets current i k) * damping
              \<and> cur' ! (i * 3 + k) = current ! (i * 3 + k) + vels' ! (i * 3 + k)
              \<and> poss' ! (i * 3 + k) = cur' ! (i * 3 + k))
     \<and> (\<forall>j. j < i * 3 \<or> i * 3 + 2 < j \<longrightarrow>
              vels' ! j = vels ! j \<and> cur' ! j = current ! j \<and> poss' ! j = poss ! j)"
  using assms
  apply (cases fist; cases burst)
  apply (simp_all add: particleStep_def Let_def draws_def accel_def)
  apply (auto dest!: three_cases simp: algebra_simps)
  done


lemma particleLoop_inv:
  assumes "n * 3 \<le> length current" "n * 3 \<le> length vels" "n * 3 \<le> length poss"
  shows "\<exists>cur' vels' poss'.
     particleLoop n ef rf fist burst rs targets (current, vels, poss, c)
       = (cur', vels', poss', c + n * draws fist burst)
     \<and> length cur' = length current \<and> length vels' = length vels \<and> length poss' = length poss
     \<and> (\<forall>i<n. \<forall>k<3. vels' ! (i * 3 + k)
                 = (vels ! (i * 3 + k) + accel ef rf fist burst rs c targets current i k) * damping
              \<and> cur' ! (i * 3 + k) = current ! (i * 3 + k) + vels' ! (i * 3 + k)
              \<and> poss' ! (i * 3 + k) = cur' ! (i * 3 + k))
     \<and> (\<forall>j\<ge>n * 3. vels' ! j = vels ! j \<and> cur' ! j = current ! j \<and> poss' ! j = poss ! j)"
  using assms
proof (induction n)
  case 0
  then show ?case by (simp add: particleLoop_def)
next
  case (Suc n)
  then obtain cur1 vels1 poss1 where
    run: "particleLoop n ef rf fist burst rs targets (current, vels, poss, c)
            = (cur1, vels1, poss1, c + n * draws fist burst)"
    and len: "length cur1 = length current" "length vels1 = length vels" "length poss1 = length poss"
    and done1: "\<forall>i<n. \<forall>k<3. vels1 ! (i * 3 + k)
                 = (vels ! (i * 3 + k) + accel ef rf fist burst rs c targets current i k) * damping
              \<and> cur1 ! (i * 3 + k) = current ! (i * 3 + k) + vels1 ! (i * 3 + k)
              \<and> poss1 ! (i * 3 + k) = cur1 ! (i * 3 + k)"
    and rest1: "\<forall>j\<ge>n * 3. vels1 ! j = vels ! j \<and> cur1 ! j = current ! j \<and> poss1 ! j = poss ! j"
    by auto
  have bounds: "n * 3 + 2 < length cur1" "n * 3 + 2 < length vels1" "n * 3 + 2 < length poss1"
    using Suc.prems len by auto
  from particleStep_nth [OF bounds, of ef rf fist burst rs targets c]
  obtain cur2 vels2 poss2 where
    step: "particleStep ef rf fist burst rs targets n (cur1, vels1, poss1, c + n * draws fist burst)
             = (cur2, vels2, poss2, c + Suc n * draws fist burst)"
    and len2: "length cur2 = length cur1" "length vels2 = length vels1" "length poss2 = length poss1"
    and new2: "\<forall>k<3. vels2 ! (n * 3 + k)
                 = (vels1 ! (n * 3 + k) + accel ef rf fist burst rs c targets cur1 n k) * damping
              \<and> cur2 ! (n * 3 + k) = cur1 ! (n * 3 + k) + vels2 ! (n * 3 + k)
              \<and> poss2 ! (n * 3 + k) = cur2 ! (n * 3 + k)"
    and rest2: "\<forall>j. j < n * 3 \<or> n * 3 + 2 < j \<longrightarrow>
              vels2 ! j = vels1 ! j \<and> cur2 ! j = cur1 ! j \<and> poss2 ! j = poss1 ! j"
    by blast
  have acc: "accel ef rf fist burst rs c targets cur1 n k
               = accel ef rf fist burst rs c targets current n k" for k
    using rest1 by (simp add: accel_def)
  have loop: "particleLoop (Suc n) ef rf fist burst rs targets (current, vels, poss, c)
                = (cur2, vels2, poss2, c + Suc n * draws fist burst)"
    using run step by (simp add: particleLoop_def)
  have old: "vels2 ! (i * 3 + k)
                 = (vels ! (i * 3 + k) + accel ef rf fist burst rs c targets current i k) * damping
              \<and> cur2 ! (i * 3 + k) = current ! (i * 3 + k) + vels2 ! (i * 3 + k)
              \<and> poss2 ! (i * 3 + k) = cur2 ! (i * 3 + k)" if "i < Suc n" "k < 3" for i k
  proof (cases "i = n")
    case True
    then show ?thesis using new2 rest1 that acc by simp
  next
    case False
    with that have "i * 3 + k < n * 3" by arith
    then show ?thesis using rest2 done1 that False by simp
  qed
  have rest: "vels2 ! j = vels ! j \<and> cur2 ! j = current ! j \<and> poss2 ! j = poss ! j"
    if "Suc n * 3 \<le> j" for j
    using rest1 rest2 that by simp
  show ?case
    using loop len len2 old rest by auto
qed


lemma physicsTick_run:
  assumes "wf st"
  shows "\<exists>cur' vels' poss'.
     physicsTick ef rf fist burst rs (st, c)
       = (st\<lparr>currentPositions := cur', velocities := vels', positions := poss'\<rparr>,
          c + PARTICLE_COUNT * draws fist burst)
     \<and> length cur' = PARTICLE_COUNT * 3 \<and> length vels' = PARTICLE_COUNT * 3
     \<and> length poss' = PARTICLE_COUNT * 3
     \<and> (\<forall>i<PARTICLE_COUNT. \<forall>k<3.
           vels' ! (i * 3 + k)
             = (velocities st ! (i * 3 + k)
                + accel ef rf fist burst rs c (targetPositions st) (currentPositions st) i k) * damping
         \<and> cur' ! (i * 3 + k) = currentPositions st ! (i * 3 + k) + vels' ! (i * 3 + k)
         \<and> poss' ! (i * 3 + k) = cur' ! (i * 3 + k))"
proof -
  have len: "PARTICLE_COUNT * 3 \<le> length (currentPositions st)"
    "PARTICLE_COUNT * 3 \<le> length (velocities st)"
    "PARTICLE_COUNT * 3 \<le> length (positions st)"
    using assms by (simp_all add: wf_def)
  from particleLoop_inv [OF len, of ef rf fist burst rs "targetPositions st" c]
  obtain cur' vels' poss' where
    run: "particleLoop PARTICLE_COUNT ef rf fist burst rs (targetPositions st)
            (currentPositions st, velocities st, positions st, c)
          = (cur', vels', poss', c + PARTICLE_COUNT * draws fist burst)"
    and len': "length cur' = length (currentPositions st)"
      "length vels' = length (velocities st)" "length poss' = length (positions st)"
    and upd: "\<forall>i<PARTICLE_COUNT. \<forall>k<3.
           vels' ! (i * 3 + k)
             = (velocities st ! (i * 3 + k)
                + accel ef rf fist burst rs c (targetPositions st) (currentPositions st) i k) * damping
         \<and> cur' ! (i * 3 + k) = currentPositions st ! (i * 3 + k) + vels' ! (i * 3 + k)
         \<and> poss' ! (i * 3 + k) = cur' ! (i * 3 + k)"
    by blast
  have "physicsTick ef rf fist burst rs (st, c)
       = (st\<lparr>currentPositions := cur', velocities := vels', positions := poss'\<rparr>,
          c + PARTICLE_COUNT * draws fist burst)"
    using run by (simp add: physicsTick_def)
  moreover have "length cur' = PARTICLE_COUNT * 3" "length vels' = PARTICLE_COUNT * 3"
    "length poss' = PARTICLE_COUNT * 3"
    using len' assms by (simp_all add: wf_def)
  ultimately show ?thesis using upd by blast
qed

lemma physicsTick_wf: "wf st \<Longrightarrow> wf (fst (physicsTick ef rf fist burst rs (st, c)))"
  using physicsTick_run [of st ef rf fist burst rs c] by (auto simp: wf_def)

lemma physicsTick_targets:
  "wf st \<Longrightarrow> targetPositions (fst (physicsTick ef rf fist burst rs (st, c))) = targetPositions st"
  using physicsTick_run [of st ef rf fist burst rs c] by auto

section \<open>One tick of the physics core\<close>

text \<open>
  C1. For every particle \<open>i\<close> and every component \<open>k\<close> (x, y, z), one frame computes the
  acceleration \<open>a\<close> as the return-to-shape term
  \<open>(target * expansionFactor - position) * returnForce\<close>, plus the fist term
  \<open>- position * 0.05 + (random - 0.5) * 0.1\<close> when \<open>isFist\<close>, plus the burst term
  \<open>position * (0.02 + random * 0.01)\<close> when \<open>isBurst\<close>; the new velocity is
  \<open>(old velocity + a) * 0.90\<close>, the new position is the old position plus the new
  velocity, and the render buffer receives the new position. The draws of particle \<open>i\<close>
  start at \<open>c + i * d\<close>, \<open>d\<close> being the number of draws per particle.
\<close>

theorem useFrame_particle_update:
  assumes "wf st" and "i < PARTICLE_COUNT" and "k < 3"
  shows "\<exists>st' c' a d.
     useFrame True hdat time rs (st, c) = (st', c')
     \<and> d = (if isFist hdat then 3 else 0) + (if isBurst hdat then 1 else (0::nat))
     \<and> a = (targetPositions st ! (i * 3 + k) * expansionFactor hdat time
             - currentPositions st ! (i * 3 + k)) * returnForce hdat
          + (if isFist hdat
             then - (currentPositions st ! (i * 3 + k) * 0.05) + (rs (c + i * d + k) - 0.5) * 0.1
             else 0)
          + (if isBurst hdat
             then currentPositions st ! (i * 3 + k)
                  * (0.02 + rs (c + i * d + (if isFist hdat then 3 else 0)) * 0.01)
             else 0)
     \<and> velocities st' ! (i * 3 + k) = (velocities st ! (i * 3 + k) + a) * 0.90
     \<and> currentPositions st' ! (i * 3 + k)
         = currentPositions st ! (i * 3 + k) + velocities st' ! (i * 3 + k)
     \<and> positions st' ! (i * 3 + k) = currentPositions st' ! (i * 3 + k)
     \<and> targetPositions st' = targetPositions st"
proof -
  from physicsTick_run [OF assms(1), of "expansionFactor hdat time" "returnForce hdat"
      "isFist hdat" "isBurst hdat" rs c]
  obtain cur' vels' poss' where
    run: "physicsTick (expansionFactor hdat time) (returnForce hdat) (isFist hdat) (isBurst hdat)
            rs (st, c)
          = (st\<lparr>currentPositions := cur', velocities := vels', positions := poss'\<rparr>,
             c + PARTICLE_COUNT * draws (isFist hdat) (isBurst hdat))"
    and upd: "\<forall>i<PARTICLE_COUNT. \<forall>k<3.
           vels' ! (i * 3 + k)
             = (velocities st ! (i * 3 + k)
                + accel (expansionFactor hdat time) (returnForce hdat) (isFist hdat)
                    (isBurst hdat) rs c (targetPositions st) (currentPositions st) i k) * damping
         \<and> cur' ! (i * 3 + k) = currentPositions st ! (i * 3 + k) + vels' ! (i * 3 + k)
         \<and> poss' ! (i * 3 + k) = cur' ! (i * 3 + k)"
    by blast
  from upd assms(2,3) have at_i:
    "vels' ! (i * 3 + k)
       = (velocities st ! (i * 3 + k)
          + accel (expansionFactor hdat time) (returnForce hdat) (isFist hdat)
              (isBurst hdat) rs c (targetPositions st) (currentPositions st) i k) * damping"
    "cur' ! (i * 3 + k) = currentPositions st ! (i * 3 + k) + vels' ! (i * 3 + k)"
    "poss' ! (i * 3 + k) = cur' ! (i * 3 + k)"
    by blast+
  show ?thesis
    unfolding useFrame_def
    by (simp only: if_False run simp_thms prod.inject ex_simps)
       (simp add: at_i accel_def draws_def damping_def)
qed

theorem useFrame_particle_update_witness:
  "wf initialParticleSystem \<and> 0 < PARTICLE_COUNT \<and> (0::nat) < 3
   \<and> velocities (fst (useFrame True
        \<lparr>isTracking = True, distance = 0.5, isFist = True, center = (0.5, 0.5), rotation = (0, 0)\<rparr>
        0 (\<lambda>_. 0) (initialParticleSystem, 0))) ! 0 = - 0.045
   \<and> currentPositions (fst (useFrame True
        \<lparr>isTracking = True, distance = 0.5, isFist = True, center = (0.5, 0.5), rotation = (0, 0)\<rparr>
        0 (\<lambda>_. 0) (initialParticleSystem, 0))) ! 0 = - 0.045"
proof -
  have z: "velocities initialParticleSystem ! 0 = 0" "currentPositions initialParticleSystem ! 0 = 0"
    "targetPositions initialParticleSystem ! 0 = 0"
    by (simp_all add: initialParticleSystem_nth PARTICLE_COUNT_def)
  from useFrame_particle_update [OF wf_initialParticleSystem PARTICLE_COUNT_pos, of 0
    "\<lparr>isTracking = True, distance = 0.5, isFist = True, center = (0.5, 0.5), rotation = (0, 0)\<rparr>"
    0 "\<lambda>_. 0" 0]
  show ?thesis
    by (auto simp: z wf_initialParticleSystem PARTICLE_COUNT_pos isBurst_def returnForce_def
        expansionFactor_def)
qed

section \<open>Expansion factor\<close>

text \<open>
  C3. The expansion factor of a frame is \<open>0.5 + distance * 1.5\<close> when \<open>isTracking\<close>
  holds and the burst condition does not, and the breathing value
  \<open>sin (elapsedTime * 0.5) * 0.1 + 1.0\<close> otherwise. This holds with the burst condition
  of the code (\<open>distance > 0.85\<close>) and with the one of the specification
  (\<open>isTracking \<and> distance > 0.85\<close>) alike; in the first case the factor lies in
  \<open>[0.5, 2.0]\<close> for a distance in \<open>[0, 1]\<close>.
\<close>

theorem expansionFactor_cases:
  "expansionFactor hdat time
     = (if isTracking hdat \<and> \<not> isBurst hdat then 0.5 + distance hdat * 1.5
        else sin (time * 0.5) * 0.1 + 1.0)
   \<and> expansionFactor hdat time
     = (if isTracking hdat \<and> \<not> (isTracking hdat \<and> distance hdat > 0.85)
        then 0.5 + distance hdat * 1.5
        else sin (time * 0.5) * 0.1 + 1.0)
   \<and> (isTracking hdat \<and> \<not> isBurst hdat \<and> 0 \<le> distance hdat \<and> distance hdat \<le> 1
        \<longrightarrow> 0.5 \<le> expansionFactor hdat time \<and> expansionFactor hdat time \<le> 2.0)"
  by (auto simp: expansionFactor_def breathing_def isBurst_def)

theorem expansionFactor_cases_witness:
  "expansionFactor \<lparr>isTracking = True, distance = 0.5, isFist = False,
                     center = (0.5, 0.5), rotation = (0, 0)\<rparr> 0 = 1.25
   \<and> expansionFactor \<lparr>isTracking = True, distance = 0.9, isFist = False,
                     center = (0.5, 0.5), rotation = (0, 0)\<rparr> 0 = 1
   \<and> expansionFactor \<lparr>isTracking = False, distance = 0.5, isFist = False,
                     center = (0.5, 0.5), rotation = (0, 0)\<rparr> 0 = 1"
  using expansionFactor_cases [of "\<lparr>isTracking = True, distance = 0.5, isFist = False,
                     center = (0.5, 0.5), rotation = (0, 0)\<rparr>" 0]
    expansionFactor_cases [of "\<lparr>isTracking = True, distance = 0.9, isFist = False,
                     center = (0.5, 0.5), rotation = (0, 0)\<rparr>" 0]
    expansionFactor_cases [of "\<lparr>isTracking = False, distance = 0.5, isFist = False,
                     center = (0.5, 0.5), rotation = (0, 0)\<rparr>" 0]
  by (simp add: isBurst_def)

section \<open>Independence of the particles\<close>

lemma accel_cong:
  assumes "\<forall>k<3. targets1 ! (i * 3 + k) = targets2 ! (i * 3 + k)
                 \<and> current1 ! (i * 3 + k) = current2 ! (i * 3 + k)"
    and "\<forall>m<draws fist burst. rs1 (c + i * draws fist burst + m) = rs2 (c + i * draws fist burst + m)"
    and "k < 3"
  shows "accel ef rf fist burst rs1 c targets1 current1 i k
       = accel ef rf fist burst rs2 c targets2 current2 i k"
proof -
  have t: "targets1 ! (i * 3 + k) = targets2 ! (i * 3 + k)"
    and p: "current1 ! (i * 3 + k) = current2 ! (i * 3 + k)"
    using assms(1,3) by simp_all
  have j: "rs1 (c + i * draws fist burst + k) = rs2 (c + i * draws fist burst + k)" if fist
    using assms(2,3) that by (simp add: draws_def)
  have b: "rs1 (c + i * draws fist burst + (if fist then 3 else 0))
         = rs2 (c + i * draws fist burst + (if fist then 3 else 0))" if burst
    using assms(2) that by (simp add: draws_def)
  show ?thesis
    unfolding accel_def t p using j b by simp
qed

lemma wf_update_velocities_nth:
  "wf st \<Longrightarrow> wf (st\<lparr>velocities := (velocities st)[j := v]\<rparr>)"
  by (simp add: wf_def)

text \<open>
  C8. The new velocity, position and render position of particle \<open>i\<close> depend only on
  the target, position and velocity of particle \<open>i\<close>, the hand data, the time and the
  random draws made for particle \<open>i\<close>: two states that agree on particle \<open>i\<close>, run
  with draw sequences that agree on the draws of particle \<open>i\<close>, give the same result
  for particle \<open>i\<close>, whatever the other particles are.
\<close>

theorem useFrame_noninterference:
  assumes "wf st1" and "wf st2" and "i < PARTICLE_COUNT"
    and "\<forall>k<3. targetPositions st1 ! (i * 3 + k) = targetPositions st2 ! (i * 3 + k)
              \<and> currentPositions st1 ! (i * 3 + k) = currentPositions st2 ! (i * 3 + k)
              \<and> velocities st1 ! (i * 3 + k) = velocities st2 ! (i * 3 + k)"
    and "\<forall>m<(if isFist hdat then 3 else 0) + (if isBurst hdat then 1 else 0).
           rs1 (c + i * ((if isFist hdat then 3 else 0) + (if isBurst hdat then 1 else 0)) + m)
         = rs2 (c + i * ((if isFist hdat then 3 else 0) + (if isBurst hdat then 1 else 0)) + m)"
  shows "\<forall>k<3.
      velocities (fst (useFrame True hdat time rs1 (st1, c))) ! (i * 3 + k)
        = velocities (fst (useFrame True hdat time rs2 (st2, c))) ! (i * 3 + k)
    \<and> currentPositions (fst (useFrame True hdat time rs1 (st1, c))) ! (i * 3 + k)
        = currentPositions (fst (useFrame True hdat time rs2 (st2, c))) ! (i * 3 + k)
    \<and> positions (fst (useFrame True hdat time rs1 (st1, c))) ! (i * 3 + k)
        = positions (fst (useFrame True hdat time rs2 (st2, c))) ! (i * 3 + k)"
proof (intro allI impI)
  fix k :: nat
  assume k: "k < 3"
  let ?ef = "expansionFactor hdat time" and ?rf = "returnForce hdat"
  let ?f = "isFist hdat" and ?b = "isBurst hdat"
  have same_draws: "\<forall>m<draws ?f ?b. rs1 (c + i * draws ?f ?b + m) = rs2 (c + i * draws ?f ?b + m)"
    using assms(5) by (simp add: draws_def)
  have acc: "accel ?ef ?rf ?f ?b rs1 c (targetPositions st1) (currentPositions st1) i k
           = accel ?ef ?rf ?f ?b rs2 c (targetPositions st2) (currentPositions st2) i k"
    by (rule accel_cong [OF _ same_draws k]) (use assms(4) in simp)
  have eqs: "velocities st1 ! (i * 3 + k) = velocities st2 ! (i * 3 + k)"
    "currentPositions st1 ! (i * 3 + k) = currentPositions st2 ! (i * 3 + k)"
    using assms(4) k by simp_all
  from physicsTick_run [OF assms(1), of ?ef ?rf ?f ?b rs1 c] assms(3) k
  have r1: "velocities (fst (useFrame True hdat time rs1 (st1, c))) ! (i * 3 + k)
      = (velocities st1 ! (i * 3 + k)
         + accel ?ef ?rf ?f ?b rs1 c (targetPositions st1) (currentPositions st1) i k) * damping"
    "currentPositions (fst (useFrame True hdat time rs1 (st1, c))) ! (i * 3 + k)
      = currentPositions st1 ! (i * 3 + k)
        + velocities (fst (useFrame True hdat time rs1 (st1, c))) ! (i * 3 + k)"
    "positions (fst (useFrame True hdat time rs1 (st1, c))) ! (i * 3 + k)
      = currentPositions (fst (useFrame True hdat time rs1 (st1, c))) ! (i * 3 + k)"
    by (auto simp: useFrame_def)
  from physicsTick_run [OF assms(2), of ?ef ?rf ?f ?b rs2 c] assms(3) k
  have r2: "velocities (fst (useFrame True hdat time rs2 (st2, c))) ! (i * 3 + k)
      = (velocities st2 ! (i * 3 + k)
         + accel ?ef ?rf ?f ?b rs2 c (targetPositions st2) (currentPositions st2) i k) * damping"
    "currentPositions (fst (useFrame True hdat time rs2 (st2, c))) ! (i * 3 + k)
      = currentPositions st2 ! (i * 3 + k)
        + velocities (fst (useFrame True hdat time rs2 (st2, c))) ! (i * 3 + k)"
    "positions (fst (useFrame True hdat time rs2 (st2, c))) ! (i * 3 + k)
      = currentPositions (fst (useFrame True hdat time rs2 (st2, c))) ! (i * 3 + k)"
    by (auto simp: useFrame_def)
  show "velocities (fst (useFrame True hdat time rs1 (st1, c))) ! (i * 3 + k)
        = velocities (fst (useFrame True hdat time rs2 (st2, c))) ! (i * 3 + k)
    \<and> currentPositions (fst (useFrame True hdat time rs1 (st1, c))) ! (i * 3 + k)
        = currentPositions (fst (useFrame True hdat time rs2 (st2, c))) ! (i * 3 + k)
    \<and> positions (fst (useFrame True hdat time rs1 (st1, c))) ! (i * 3 + k)
        = positions (fst (useFrame True hdat time rs2 (st2, c))) ! (i * 3 + k)"
    unfolding r1 r2 acc eqs by simp
qed

theorem useFrame_noninterference_witness:
  "wf initialParticleSystem
   \<and> wf (initialParticleSystem\<lparr>velocities := (velocities initialParticleSystem)[3 := 7]\<rparr>)
   \<and> 0 < PARTICLE_COUNT
   \<and> velocities (initialParticleSystem\<lparr>velocities := (velocities initialParticleSystem)[3 := 7]\<rparr>) ! 3
       \<noteq> velocities initialParticleSystem ! 3
   \<and> velocities (fst (useFrame True
        \<lparr>isTracking = True, distance = 0.9, isFist = True, center = (0.5, 0.5), rotation = (0, 0)\<rparr>
        0 (\<lambda>_. 0) (initialParticleSystem, 0))) ! 0
     = velocities (fst (useFrame True
        \<lparr>isTracking = True, distance = 0.9, isFist = True, center = (0.5, 0.5), rotation = (0, 0)\<rparr>
        0 (\<lambda>_. 0)
        (initialParticleSystem\<lparr>velocities := (velocities initialParticleSystem)[3 := 7]\<rparr>, 0))) ! 0
   \<and> currentPositions (fst (useFrame True
        \<lparr>isTracking = True, distance = 0.9, isFist = True, center = (0.5, 0.5), rotation = (0, 0)\<rparr>
        0 (\<lambda>_. 0) (initialParticleSystem, 0))) ! 0
     = currentPositions (fst (useFrame True
        \<lparr>isTracking = True, distance = 0.9, isFist = True, center = (0.5, 0.5), rotation = (0, 0)\<rparr>
        0 (\<lambda>_. 0)
        (initialParticleSystem\<lparr>velocities := (velocities initialParticleSystem)[3 := 7]\<rparr>, 0))) ! 0"
proof -
  let ?st2 = "initialParticleSystem\<lparr>velocities := (velocities initialParticleSystem)[3 := 7]\<rparr>"
  let ?hd = "\<lparr>isTracking = True, distance = 0.9, isFist = True,
              center = (0.5, 0.5), rotation = (0, 0)\<rparr>"
  have w2: "wf ?st2"
    by (rule wf_update_velocities_nth [OF wf_initialParticleSystem])
  have len: "3 < length (velocities initialParticleSystem)"
    using wf_initialParticleSystem by (simp add: wf_def PARTICLE_COUNT_def)
  have differ: "velocities ?st2 ! 3 \<noteq> velocities initialParticleSystem ! 3"
    using len by (simp add: initialParticleSystem_nth PARTICLE_COUNT_def)
  have agree: "\<forall>k<3. targetPositions initialParticleSystem ! (0 * 3 + k)
                    = targetPositions ?st2 ! (0 * 3 + k)
              \<and> currentPositions initialParticleSystem ! (0 * 3 + k)
                    = currentPositions ?st2 ! (0 * 3 + k)
              \<and> velocities initialParticleSystem ! (0 * 3 + k) = velocities ?st2 ! (0 * 3 + k)"
    by simp
  from useFrame_noninterference [OF wf_initialParticleSystem w2 PARTICLE_COUNT_pos agree,
      of ?hd "\<lambda>_. 0" 0 "\<lambda>_. 0" 0]
  have "velocities (fst (useFrame True ?hd 0 (\<lambda>_. 0) (initialParticleSystem, 0))) ! (0 * 3 + 0)
        = velocities (fst (useFrame True ?hd 0 (\<lambda>_. 0) (?st2, 0))) ! (0 * 3 + 0)
    \<and> currentPositions (fst (useFrame True ?hd 0 (\<lambda>_. 0) (initialParticleSystem, 0))) ! (0 * 3 + 0)
        = currentPositions (fst (useFrame True ?hd 0 (\<lambda>_. 0) (?st2, 0))) ! (0 * 3 + 0)"
    by simp
  then show ?thesis
    using wf_initialParticleSystem w2 PARTICLE_COUNT_pos differ by simp
qed

section \<open>The gesture source\<close>

lemma fingerDistance_range:
  "fingerDistance hands = Some d \<Longrightarrow> 0 \<le> d \<and> d \<le> 1 \<and> (length hands \<noteq> 2 \<longrightarrow> d = 0.5)"
  by (auto simp: fingerDistance_def Let_def split: if_splits option.splits)

lemma landmark_present: "k < length h \<Longrightarrow> landmark h k = Some (h ! k)"
  by (simp add: landmark_def)

lemma centroidSums_total:
  "\<forall>h\<in>set hands. length h = 21 \<Longrightarrow> \<exists>r. centroidSums hands (sx, sy, n) = Some r"
proof (induction hands arbitrary: sx sy n)
  case Nil
  show ?case by simp
next
  case (Cons h hs)
  from Cons.prems have len: "length h = 21" and rest: "\<forall>h\<in>set hs. length h = 21"
    by simp_all
  show ?case
    using Cons.IH [OF rest] by (simp add: len landmark_present)
qed

lemma countOpenFingers_total:
  "\<forall>h\<in>set hands. length h = 21 \<Longrightarrow> \<exists>r. countOpenFingers hands n = Some r"
proof (induction hands arbitrary: n)
  case Nil
  show ?case by simp
next
  case (Cons h hs)
  from Cons.prems have "length h = 21" and rest: "\<forall>h\<in>set hs. length h = 21" by simp_all
  then show ?case
    using Cons.IH [OF rest] by (simp add: landmark_present)
qed

lemma fingerDistance_total:
  assumes "\<forall>h\<in>set hands. length h = 21"
  shows "\<exists>r. fingerDistance hands = Some r"
proof (cases "length hands = 2")
  case True
  then obtain h1 h2 where "hands = [h1, h2]"
    by (cases hands; cases "tl hands") auto
  with assms show ?thesis
    by (simp add: fingerDistance_def Let_def landmark_present)
next
  case False
  then have "fingerDistance hands = Some 0.5" by (simp add: fingerDistance_def)
  then show ?thesis ..
qed

lemma handDataOf_total:
  assumes "\<forall>h\<in>set hands. length h = 21"
  shows "\<exists>hdat. handDataOf (Some hands) = Some hdat"
proof -
  from centroidSums_total [OF assms, of 0 0 0]
  obtain sx sy n where c: "centroidSums hands (0, 0, 0) = Some (sx, sy, n)"
    by (metis prod_cases3)
  from fingerDistance_total [OF assms] obtain d where d: "fingerDistance hands = Some d" ..
  from countOpenFingers_total [OF assms, of 0]
  obtain f where f: "countOpenFingers hands 0 = Some f" ..
  show ?thesis
    by (simp add: handDataOf_def c d f Let_def split: prod.splits)
qed

lemma handDataOf_idle:
  assumes "handDataOf landmarks = Some hdat" and "\<not> isTracking hdat"
  shows "distance hdat = 0.5 \<and> \<not> isFist hdat"
  using assms
  by (auto simp: handDataOf_def Let_def split: option.splits if_splits prod.splits)

text \<open>
  C9. Every hand data the gesture source passes to \<open>onUpdate\<close> has its distance in
  \<open>[0, 1]\<close>, and the distance is 0.5 when tracking is lost (no landmarks, or no hand)
  and when fewer than two hands are detected.
\<close>

theorem handDataOf_distance:
  assumes "handDataOf landmarks = Some hdat"
  shows "0 \<le> distance hdat \<and> distance hdat \<le> 1
    \<and> (\<not> isTracking hdat \<longrightarrow> distance hdat = 0.5)
    \<and> (landmarks = None \<longrightarrow> distance hdat = 0.5)
    \<and> (\<forall>hands. landmarks = Some hands \<and> length hands < 2 \<longrightarrow> distance hdat = 0.5)"
  using assms
  by (auto simp: handDataOf_def Let_def
      split: option.splits if_splits prod.splits dest!: fingerDistance_range)

theorem handDataOf_distance_witness:
  "handDataOf (Some [replicate 21 \<lparr>lm_x = 0.5, lm_y = 0.5, lm_z = 0\<rparr>])
     = Some \<lparr>isTracking = True, distance = 0.5, isFist = True,
             center = (0.5, 0.5), rotation = (0, 0)\<rparr>
   \<and> length [replicate 21 \<lparr>lm_x = 0.5, lm_y = 0.5, lm_z = 0\<rparr>] < 2
   \<and> 0 \<le> distance \<lparr>isTracking = True, distance = 0.5, isFist = True,
             center = (0.5, 0.5), rotation = (0, 0)\<rparr>
   \<and> distance \<lparr>isTracking = True, distance = 0.5, isFist = True,
             center = (0.5, 0.5), rotation = (0, 0)\<rparr> \<le> 1"
proof -
  have h: "handDataOf (Some [replicate 21 \<lparr>lm_x = 0.5, lm_y = 0.5, lm_z = 0\<rparr>])
     = Some \<lparr>isTracking = True, distance = 0.5, isFist = True,
             center = (0.5, 0.5), rotation = (0, 0)\<rparr>"
    by (simp add: handDataOf_def fingerDistance_def landmark_def getDist_def Let_def)
  from handDataOf_distance [OF h] show ?thesis
    using h by simp
qed

section \<open>Gating of the force fields\<close>

text \<open>
  C2, as stated, fails: the frame callback tests \<open>distance > 0.85\<close> and \<open>isFist\<close>
  without looking at \<open>isTracking\<close>. With \<open>isTracking\<close> false, a particle at rest on
  its target \<open>1\<close> gets the velocity \<open>0.018\<close> from the burst force when the distance
  is 0.9, and \<open>- 0.09\<close> from the fist force when \<open>isFist\<close> is set; with the distance
  0.5 and no fist it stays at rest.
\<close>

theorem untracked_forces_counterexample:
  "\<not> isTracking \<lparr>isTracking = False, distance = 0.9, isFist = False,
                   center = (0.5, 0.5), rotation = (0, 0)\<rparr>
   \<and> velocities (fst (useFrame True
        \<lparr>isTracking = False, distance = 0.9, isFist = False, center = (0.5, 0.5), rotation = (0, 0)\<rparr>
        0 (\<lambda>_. 0)
        (initialParticleSystem\<lparr>targetPositions := replicate (PARTICLE_COUNT * 3) 1,
                                 currentPositions := replicate (PARTICLE_COUNT * 3) 1\<rparr>, 0))) ! 0
       = 0.018
   \<and> \<not> isTracking \<lparr>isTracking = False, distance = 0.5, isFist = True,
                   center = (0.5, 0.5), rotation = (0, 0)\<rparr>
   \<and> velocities (fst (useFrame True
        \<lparr>isTracking = False, distance = 0.5, isFist = True, center = (0.5, 0.5), rotation = (0, 0)\<rparr>
        0 (\<lambda>_. 0)
        (initialParticleSystem\<lparr>targetPositions := replicate (PARTICLE_COUNT * 3) 1,
                                 currentPositions := replicate (PARTICLE_COUNT * 3) 1\<rparr>, 0))) ! 0
       = - 0.09
   \<and> velocities (fst (useFrame True
        \<lparr>isTracking = False, distance = 0.5, isFist = False, center = (0.5, 0.5), rotation = (0, 0)\<rparr>
        0 (\<lambda>_. 0)
        (initialParticleSystem\<lparr>targetPositions := replicate (PARTICLE_COUNT * 3) 1,
                                 currentPositions := replicate (PARTICLE_COUNT * 3) 1\<rparr>, 0))) ! 0
       = 0"
proof -
  let ?st = "initialParticleSystem\<lparr>targetPositions := replicate (PARTICLE_COUNT * 3) 1,
                                 currentPositions := replicate (PARTICLE_COUNT * 3) 1\<rparr>"
  have w: "wf ?st"
    using wf_initialParticleSystem by (simp add: wf_def)
  have z: "replicate (PARTICLE_COUNT * 3) (1::real) ! 0 = 1"
    "velocities initialParticleSystem ! 0 = 0"
    by (simp_all add: initialParticleSystem_nth PARTICLE_COUNT_pos)
  have v: "velocities (fst (useFrame True hdat 0 (\<lambda>_. 0) (?st, 0))) ! 0
      = (0 + accel (expansionFactor hdat 0) (returnForce hdat) (isFist hdat) (isBurst hdat)
               (\<lambda>_. 0) 0 (targetPositions ?st) (currentPositions ?st) 0 0) * damping" for hdat
    using physicsTick_run [OF w, of "expansionFactor hdat 0" "returnForce hdat"
        "isFist hdat" "isBurst hdat" "\<lambda>_. 0" 0] PARTICLE_COUNT_pos
    by (auto simp: useFrame_def z)
  show ?thesis
    unfolding v
    by (simp add: accel_def expansionFactor_def breathing_def returnForce_def isBurst_def
        damping_def z)
qed

text \<open>
  C2, amended. The burst force is applied if and only if \<open>distance > 0.85\<close> and the
  fist force if and only if \<open>isFist\<close>, whatever \<open>isTracking\<close> is. The initial hand
  data and every hand data the gesture source publishes with \<open>isTracking\<close> false have
  the distance 0.5 and \<open>isFist\<close> false, so that for them neither force is applied and
  the acceleration is the return-to-shape term alone.
\<close>

theorem force_gates:
  assumes "wf st" and "i < PARTICLE_COUNT" and "k < 3"
  shows "(\<exists>a d.
        d = (if isFist hdat then 3 else 0) + (if distance hdat > 0.85 then 1 else (0::nat))
      \<and> a = (targetPositions st ! (i * 3 + k) * expansionFactor hdat time
              - currentPositions st ! (i * 3 + k)) * (if distance hdat > 0.85 then 0 else 0.03)
           + (if isFist hdat
              then - (currentPositions st ! (i * 3 + k) * 0.05) + (rs (c + i * d + k) - 0.5) * 0.1
              else 0)
           + (if distance hdat > 0.85
              then currentPositions st ! (i * 3 + k)
                   * (0.02 + rs (c + i * d + (if isFist hdat then 3 else 0)) * 0.01)
              else 0)
      \<and> velocities (fst (useFrame True hdat time rs (st, c))) ! (i * 3 + k)
          = (velocities st ! (i * 3 + k) + a) * 0.90)
    \<and> (\<not> isTracking initialHandData \<and> distance initialHandData = 0.5
        \<and> \<not> isFist initialHandData)
    \<and> (\<forall>landmarks. handDataOf landmarks = Some hdat \<and> \<not> isTracking hdat \<longrightarrow>
          distance hdat = 0.5 \<and> \<not> isFist hdat
        \<and> velocities (fst (useFrame True hdat time rs (st, c))) ! (i * 3 + k)
            = (velocities st ! (i * 3 + k)
               + (targetPositions st ! (i * 3 + k) * (sin (time * 0.5) * 0.1 + 1)
                  - currentPositions st ! (i * 3 + k)) * 0.03) * 0.90)"
proof -
  have v: "velocities (fst (useFrame True hdat time rs (st, c))) ! (i * 3 + k)
      = (velocities st ! (i * 3 + k)
         + accel (expansionFactor hdat time) (returnForce hdat) (isFist hdat) (isBurst hdat)
               rs c (targetPositions st) (currentPositions st) i k) * damping"
    using physicsTick_run [OF assms(1), of "expansionFactor hdat time" "returnForce hdat"
        "isFist hdat" "isBurst hdat" rs c] assms(2,3)
    by (auto simp: useFrame_def)
  have gates: "\<exists>a d.
        d = (if isFist hdat then 3 else 0) + (if distance hdat > 0.85 then 1 else (0::nat))
      \<and> a = (targetPositions st ! (i * 3 + k) * expansionFactor hdat time
              - currentPositions st ! (i * 3 + k)) * (if distance hdat > 0.85 then 0 else 0.03)
           + (if isFist hdat
              then - (currentPositions st ! (i * 3 + k) * 0.05) + (rs (c + i * d + k) - 0.5) * 0.1
              else 0)
           + (if distance hdat > 0.85
              then currentPositions st ! (i * 3 + k)
                   * (0.02 + rs (c + i * d + (if isFist hdat then 3 else 0)) * 0.01)
              else 0)
      \<and> velocities (fst (useFrame True hdat time rs (st, c))) ! (i * 3 + k)
          = (velocities st ! (i * 3 + k) + a) * 0.90"
    unfolding v by (simp add: accel_def draws_def returnForce_def isBurst_def damping_def)
  have init: "\<not> isTracking initialHandData \<and> distance initialHandData = 0.5
        \<and> \<not> isFist initialHandData"
    by (simp add: initialHandData_def)
  have idle: "distance hdat = 0.5 \<and> \<not> isFist hdat
        \<and> velocities (fst (useFrame True hdat time rs (st, c))) ! (i * 3 + k)
            = (velocities st ! (i * 3 + k)
               + (targetPositions st ! (i * 3 + k) * (sin (time * 0.5) * 0.1 + 1)
                  - currentPositions st ! (i * 3 + k)) * 0.03) * 0.90"
    if "handDataOf landmarks = Some hdat" "\<not> isTracking hdat" for landmarks
  proof -
    from handDataOf_idle [OF that] have d: "distance hdat = 0.5" and f: "\<not> isFist hdat"
      by simp_all
    show ?thesis
      unfolding v using that(2)
      by (simp add: d f accel_def expansionFactor_def breathing_def returnForce_def
          isBurst_def damping_def)
  qed
  show ?thesis
    using gates init idle by blast
qed

theorem force_gates_witness:
  "wf initialParticleSystem \<and> 0 < PARTICLE_COUNT \<and> (0::nat) < 3
   \<and> handDataOf None = Some initialHandData
   \<and> \<not> isTracking initialHandData
   \<and> velocities (fst (useFrame True initialHandData 0 (\<lambda>_. 0) (initialParticleSystem, 0))) ! 0
       = 0"
proof -
  have h: "handDataOf None = Some initialHandData"
    by (simp add: handDataOf_def initialHandData_def)
  have n: "\<not> isTracking initialHandData"
    by (simp add: initialHandData_def)
  have z: "velocities initialParticleSystem ! 0 = 0" "currentPositions initialParticleSystem ! 0 = 0"
    "targetPositions initialParticleSystem ! 0 = 0"
    by (simp_all add: initialParticleSystem_nth PARTICLE_COUNT_pos)
  from force_gates [OF wf_initialParticleSystem PARTICLE_COUNT_pos, of 0 initialHandData 0
      "\<lambda>_. 0" 0] h n
  have "velocities (fst (useFrame True initialHandData 0 (\<lambda>_. 0) (initialParticleSystem, 0))) ! 0
       = 0"
    by (auto simp: z)
  then show ?thesis
    using wf_initialParticleSystem PARTICLE_COUNT_pos h n by simp
qed

section \<open>Return force and burst\<close>

text \<open>The return force is 0 in the frames with the burst condition, and in no other.\<close>

lemma returnForce_zero_iff: "returnForce hdat = 0 \<longleftrightarrow> isBurst hdat"
  by (simp add: returnForce_def)

section \<open>Rounding to single precision\<close>


lemma roundTiesToEven_near:
  assumes "\<bar>t - of_int n\<bar> < 1 / 2"
  shows "roundTiesToEven t = n"
proof (cases "of_int n \<le> t")
  case True
  with assms have "\<lfloor>t\<rfloor> = n" by (intro floor_unique; simp add: abs_if)
  with assms True show ?thesis by (simp add: roundTiesToEven_def abs_if)
next
  case False
  with assms have f: "\<lfloor>t\<rfloor> = n - 1" by (intro floor_unique; simp add: abs_if)
  from assms False have "1 / 2 < t - of_int (n - 1)" by (simp add: abs_if)
  then show ?thesis by (simp add: roundTiesToEven_def f)
qed


lemma f32_binade:
  assumes "2 powr of_int e \<le> \<bar>x\<bar>" and "\<bar>x\<bar> < 2 powr (of_int e + 1)" and "- 126 \<le> e"
  shows "f32 x = of_int (roundTiesToEven (x / 2 powr (of_int e - 23))) * 2 powr (of_int e - 23)"
proof -
  have pos: "0 < \<bar>x\<bar>"
    using assms(1) by (smt (verit) powr_gt_zero)
  then have "\<lfloor>log 2 \<bar>x\<bar>\<rfloor> = e"
    using assms(1,2) by (simp add: floor_log_eq_powr_iff)
  then show ?thesis
    using pos assms(3) by (simp add: f32_def Let_def max_def)
qed


lemma f32_minus_two: "f32 (- 2) = - 2"
proof -
  have "f32 (- 2) = of_int (roundTiesToEven (- 2 / 2 powr (of_int 1 - 23)))
                    * 2 powr (of_int 1 - 23)"
    by (rule f32_binade) simp_all
  moreover have "roundTiesToEven (- 2 / 2 powr (of_int 1 - 23)) = - 8388608"
    by (rule roundTiesToEven_near) (simp add: powr_neg_numeral)
  ultimately show ?thesis by (simp add: powr_neg_numeral)
qed

section \<open>Properties of the shape sampler\<close>

lemma shapePoint_counter: "snd (shapePoint type radius i rs c) = c + shapeDraws type"
  by (simp add: shapePoint_def shapeDraws_def getRandomPointInSphere_def Let_def
      split: prod.splits)

lemma shapeStep_nth:
  assumes "i * 3 + 2 < length ps"
  shows "\<exists>ps'. shapeStep type radius rs i (ps, c) = (ps', c + shapeDraws type)
     \<and> length ps' = length ps
     \<and> ps' ! (i * 3) = f32 (fst (fst (shapePoint type radius i rs c)))
     \<and> ps' ! (i * 3 + 1) = f32 (fst (snd (fst (shapePoint type radius i rs c))))
     \<and> ps' ! (i * 3 + 2) = f32 (snd (snd (fst (shapePoint type radius i rs c))))
     \<and> (\<forall>j. j < i * 3 \<or> i * 3 + 2 < j \<longrightarrow> ps' ! j = ps ! j)"
proof -
  obtain x y z c' where sp: "shapePoint type radius i rs c = ((x, y, z), c')"
    by (metis prod_cases3 surj_pair)
  with shapePoint_counter [of type radius i rs c] have c': "c' = c + shapeDraws type"
    by simp
  show ?thesis
    using assms by (simp add: shapeStep_def sp c' Let_def)
qed

lemma shapeLoop_inv:
  assumes "n * 3 \<le> length ps"
  shows "\<exists>ps'. shapeLoop n type radius rs (ps, c) = (ps', c + n * shapeDraws type)
     \<and> length ps' = length ps
     \<and> (\<forall>i<n.
           ps' ! (i * 3)
             = f32 (fst (fst (shapePoint type radius i rs (c + i * shapeDraws type))))
         \<and> ps' ! (i * 3 + 1)
             = f32 (fst (snd (fst (shapePoint type radius i rs (c + i * shapeDraws type)))))
         \<and> ps' ! (i * 3 + 2)
             = f32 (snd (snd (fst (shapePoint type radius i rs (c + i * shapeDraws type))))))
     \<and> (\<forall>j\<ge>n * 3. ps' ! j = ps ! j)"
  using assms
proof (induction n)
  case 0
  show ?case by (simp add: shapeLoop_def)
next
  case (Suc n)
  let ?pt = "\<lambda>i. fst (shapePoint type radius i rs (c + i * shapeDraws type))"
  from Suc obtain ps1 where
    run: "shapeLoop n type radius rs (ps, c) = (ps1, c + n * shapeDraws type)"
    and len: "length ps1 = length ps"
    and done1: "\<forall>i<n. ps1 ! (i * 3) = f32 (fst (?pt i))
                 \<and> ps1 ! (i * 3 + 1) = f32 (fst (snd (?pt i)))
                 \<and> ps1 ! (i * 3 + 2) = f32 (snd (snd (?pt i)))"
    and rest1: "\<forall>j\<ge>n * 3. ps1 ! j = ps ! j"
    by auto
  have bound: "n * 3 + 2 < length ps1"
    using Suc.prems len by simp
  from shapeStep_nth [OF bound, of type radius rs "c + n * shapeDraws type"]
  obtain ps2 where
    step: "shapeStep type radius rs n (ps1, c + n * shapeDraws type)
             = (ps2, c + n * shapeDraws type + shapeDraws type)"
    and len2: "length ps2 = length ps1"
    and new2: "ps2 ! (n * 3) = f32 (fst (?pt n))"
      "ps2 ! (n * 3 + 1) = f32 (fst (snd (?pt n)))"
      "ps2 ! (n * 3 + 2) = f32 (snd (snd (?pt n)))"
    and rest2: "\<forall>j. j < n * 3 \<or> n * 3 + 2 < j \<longrightarrow> ps2 ! j = ps1 ! j"
    by blast
  have loop: "shapeLoop (Suc n) type radius rs (ps, c) = (ps2, c + Suc n * shapeDraws type)"
    using run step by (simp add: shapeLoop_def add.assoc)
  have pts: "ps2 ! (i * 3) = f32 (fst (?pt i))
           \<and> ps2 ! (i * 3 + 1) = f32 (fst (snd (?pt i)))
           \<and> ps2 ! (i * 3 + 2) = f32 (snd (snd (?pt i)))"
    if "i < Suc n" for i
  proof (cases "i = n")
    case True
    then show ?thesis using new2 by simp
  next
    case False
    with that have "i * 3 < n * 3" "i * 3 + 1 < n * 3" "i * 3 + 2 < n * 3" by arith+
    then show ?thesis using rest2 done1 that False by simp
  qed
  have rest: "ps2 ! j = ps ! j" if "Suc n * 3 \<le> j" for j
    using rest1 rest2 that by simp
  show ?case
    using loop len len2 pts rest by auto
qed

lemma generateShapePositions_run:
  "\<exists>ps. generateShapePositions type radius rs c = (ps, c + PARTICLE_COUNT * shapeDraws type)
     \<and> length ps = PARTICLE_COUNT * 3
     \<and> (\<forall>i<PARTICLE_COUNT.
           ps ! (i * 3)
             = f32 (fst (fst (shapePoint type radius i rs (c + i * shapeDraws type))))
         \<and> ps ! (i * 3 + 1)
             = f32 (fst (snd (fst (shapePoint type radius i rs (c + i * shapeDraws type)))))
         \<and> ps ! (i * 3 + 2)
             = f32 (snd (snd (fst (shapePoint type radius i rs (c + i * shapeDraws type))))))"
proof -
  have "PARTICLE_COUNT * 3 \<le> length (Float32Array (PARTICLE_COUNT * 3))"
    by (simp add: Float32Array_def)
  from shapeLoop_inv [OF this, of type radius rs c]
  show ?thesis
    by (auto simp: generateShapePositions_def Float32Array_def)
qed

lemma generateShapePositions_length:
  "length (fst (generateShapePositions type radius rs c)) = PARTICLE_COUNT * 3"
  using generateShapePositions_run [of type radius rs c] by auto

lemma generateShapePositions_nth:
  assumes "i < PARTICLE_COUNT"
  shows "fst (generateShapePositions type radius rs c) ! (i * 3)
           = f32 (fst (fst (shapePoint type radius i rs (c + i * shapeDraws type))))"
    and "fst (generateShapePositions type radius rs c) ! (i * 3 + 1)
           = f32 (fst (snd (fst (shapePoint type radius i rs (c + i * shapeDraws type)))))"
    and "fst (generateShapePositions type radius rs c) ! (i * 3 + 2)
           = f32 (snd (snd (fst (shapePoint type radius i rs (c + i * shapeDraws type)))))"
  using generateShapePositions_run [of type radius rs c] assms by auto













section \<open>Unknown shape kinds\<close>

lemma shapePoint_default:
  assumes "type \<notin> {SPHERE, CUBE, HEART, SPIRAL, SATURN, CLOUD}"
  shows "shapePoint type radius i rs c = shapePoint CLOUD radius i rs c"
  using assms
  by (simp add: shapePoint_def SPHERE_def CUBE_def HEART_def SPIRAL_def SATURN_def CLOUD_def)

lemma generateShapePositions_default:
  assumes "type \<notin> {SPHERE, CUBE, HEART, SPIRAL, SATURN, CLOUD}"
  shows "generateShapePositions type radius rs c = generateShapePositions CLOUD radius rs c"
proof -
  have "shapeStep type radius rs = shapeStep CLOUD radius rs"
    by (intro ext) (simp add: shapeStep_def shapePoint_default [OF assms])
  then show ?thesis
    by (simp add: generateShapePositions_def shapeLoop_def)
qed

lemma cloud_point_half:
  "fst (shapePoint CLOUD 4 i (\<lambda>_. 1 / 2) c) = (0, 0, - 2)"
  by (simp add: shapePoint_def setFromSphericalCoords_def multiplyScalar_def Let_def
      SPHERE_def CUBE_def HEART_def SPIRAL_def SATURN_def CLOUD_def)

text \<open>
  C5, as stated, fails: the sampler has no error path. The kind \<open>''Torus''\<close> is none of
  the six enumerated ones, and the sampler returns for it the buffer it returns for Cloud,
  of \<open>3 * PARTICLE_COUNT\<close> entries (the third of them \<open>- 2\<close> when every draw is
  \<open>1 / 2\<close>).
\<close>

theorem unknown_kind_counterexample:
  "''Torus'' \<notin> {SPHERE, CUBE, HEART, SPIRAL, SATURN, CLOUD}
   \<and> generateShapePositions ''Torus'' 4 (\<lambda>_. 1 / 2) 0
       = generateShapePositions CLOUD 4 (\<lambda>_. 1 / 2) 0
   \<and> length (fst (generateShapePositions ''Torus'' 4 (\<lambda>_. 1 / 2) 0)) = 3 * PARTICLE_COUNT
   \<and> fst (generateShapePositions ''Torus'' 4 (\<lambda>_. 1 / 2) 0) ! 2 = - 2"
proof -
  have t: "''Torus'' \<notin> {SPHERE, CUBE, HEART, SPIRAL, SATURN, CLOUD}"
    by (simp add: SPHERE_def CUBE_def HEART_def SPIRAL_def SATURN_def CLOUD_def)
  have eq: "generateShapePositions ''Torus'' 4 (\<lambda>_. 1 / 2) 0
       = generateShapePositions CLOUD 4 (\<lambda>_. 1 / 2) 0"
    by (rule generateShapePositions_default [OF t])
  from generateShapePositions_nth(3) [OF PARTICLE_COUNT_pos, of CLOUD 4 "\<lambda>_. 1 / 2" 0]
  have third: "fst (generateShapePositions CLOUD 4 (\<lambda>_. 1 / 2) 0) ! 2 = - 2"
    by (simp add: cloud_point_half f32_minus_two numeral_2_eq_2)
  have len: "length (fst (generateShapePositions ''Torus'' 4 (\<lambda>_. 1 / 2) 0))
               = 3 * PARTICLE_COUNT"
    by (simp add: generateShapePositions_length)
  show ?thesis
    using t len third unfolding eq by blast
qed

text \<open>
  C5, amended. A shape kind outside the enumerated set is handled by the default branch
  of the switch, shared with Cloud: the sampler returns the same buffer as for Cloud, of
  \<open>3 * PARTICLE_COUNT\<close> entries, and no error.
\<close>

theorem unknown_kind_is_cloud:
  assumes "type \<notin> {SPHERE, CUBE, HEART, SPIRAL, SATURN, CLOUD}"
  shows "generateShapePositions type radius rs c = generateShapePositions CLOUD radius rs c
       \<and> length (fst (generateShapePositions type radius rs c)) = 3 * PARTICLE_COUNT"
  using generateShapePositions_default [OF assms] generateShapePositions_length [of type radius rs c]
  by simp

theorem unknown_kind_is_cloud_witness:
  "''Torus'' \<notin> {SPHERE, CUBE, HEART, SPIRAL, SATURN, CLOUD}
   \<and> generateShapePositions ''Torus'' 4 (\<lambda>_. 0) 0 = generateShapePositions CLOUD 4 (\<lambda>_. 0) 0
   \<and> length (fst (generateShapePositions ''Torus'' 4 (\<lambda>_. 0) 0)) = 3 * PARTICLE_COUNT"
proof -
  have t: "''Torus'' \<notin> {SPHERE, CUBE, HEART, SPIRAL, SATURN, CLOUD}"
    by (simp add: SPHERE_def CUBE_def HEART_def SPIRAL_def SATURN_def CLOUD_def)
  from unknown_kind_is_cloud [OF t, of 4 "\<lambda>_. 0" 0] t show ?thesis by blast
qed

section \<open>Shape selection\<close>

lemma Float32Array_set_same_length:
  "length source = length target \<Longrightarrow> Float32Array_set target source = Inr source"
  by (simp add: Float32Array_set_def)

lemma useEffect_targetShape_run:
  assumes "wf st"
  shows "useEffect_targetShape targetShape rs (st, c)
     = Inr (if list_all (\<lambda>v. v = 0) (currentPositions st)
            then st\<lparr>targetPositions := fst (generateShapePositions targetShape 4 rs c),
                    currentPositions := fst (generateShapePositions targetShape 4 rs c)\<rparr>
            else st\<lparr>targetPositions := fst (generateShapePositions targetShape 4 rs c)\<rparr>,
            snd (generateShapePositions targetShape 4 rs c))"
proof -
  obtain ps c' where g: "generateShapePositions targetShape 4 rs c = (ps, c')"
    by (cases "generateShapePositions targetShape 4 rs c")
  with generateShapePositions_length [of targetShape 4 rs c]
  have len: "length ps = PARTICLE_COUNT * 3" by simp
  have t: "Float32Array_set (targetPositions st) ps = Inr ps"
    and p: "Float32Array_set (currentPositions st) ps = Inr ps"
    using assms len by (simp_all add: Float32Array_set_same_length wf_def)
  show ?thesis
    by (simp add: useEffect_targetShape_def g t p)
qed


text \<open>
  C6. After a shape change to a kind, the target buffer is the buffer the sampler
  returned for that kind in this call: for every \<open>i\<close> the stored target point \<open>i\<close> is
  the \<open>i\<close>-th point of the returned sequence, with no reindexing; the returned buffer has
  \<open>3 * PARTICLE_COUNT\<close> entries.
\<close>

theorem useEffect_targetShape_targets:
  assumes "wf st"
  shows "\<exists>st' newPositions c'.
       generateShapePositions targetShape 4 rs c = (newPositions, c')
     \<and> useEffect_targetShape targetShape rs (st, c) = Inr (st', c')
     \<and> length newPositions = 3 * PARTICLE_COUNT
     \<and> targetPositions st' = newPositions
     \<and> (\<forall>i<PARTICLE_COUNT.
           (targetPositions st' ! (i * 3), targetPositions st' ! (i * 3 + 1),
            targetPositions st' ! (i * 3 + 2))
           = (newPositions ! (i * 3), newPositions ! (i * 3 + 1), newPositions ! (i * 3 + 2)))
     \<and> wf st'"
proof -
  obtain ps c' where g: "generateShapePositions targetShape 4 rs c = (ps, c')"
    by (cases "generateShapePositions targetShape 4 rs c")
  with generateShapePositions_length [of targetShape 4 rs c]
  have len: "length ps = PARTICLE_COUNT * 3" by simp
  show ?thesis
    using assms len
    by (simp add: useEffect_targetShape_run [OF assms] g wf_def)
qed

theorem useEffect_targetShape_targets_witness:
  "wf initialParticleSystem
   \<and> (\<exists>st' c'. useEffect_targetShape HEART (\<lambda>_. 1 / 2) (initialParticleSystem, 0) = Inr (st', c')
        \<and> targetPositions st' = fst (generateShapePositions HEART 4 (\<lambda>_. 1 / 2) 0)
        \<and> length (targetPositions st') = 3 * PARTICLE_COUNT)"
  using useEffect_targetShape_targets [OF wf_initialParticleSystem, of HEART "\<lambda>_. 1 / 2" 0]
    wf_initialParticleSystem
  by auto




lemma useEffect_targetShape_resnap:
  assumes "wf st" and "list_all (\<lambda>v. v = 0) (currentPositions st)"
  shows "\<exists>st' c'. useEffect_targetShape targetShape rs (st, c) = Inr (st', c')
     \<and> currentPositions st' = fst (generateShapePositions targetShape 4 rs c)
     \<and> velocities st' = velocities st"
  using assms(2) by (simp add: useEffect_targetShape_run [OF assms(1)])



end
